theory Spec2Isabelle
  imports Main "HOL-Library.AList"
begin

section \<open>JavaScript values\<close>

text \<open>
  The components are TypeScript compiled to JavaScript, and the code under study branches on
  truthiness, on \<^verbatim>\<open>typeof\<close>, on \<^verbatim>\<open>=== undefined\<close> and on object spread. The values are
  therefore modelled dynamically. An object is an association list from property names to
  values, in insertion order; a property may be present with the value \<^verbatim>\<open>undefined\<close>.
  A React element carries its type name and its props. A function value is opaque and is
  identified by a name. Numbers are restricted to the integers.
\<close>

datatype jsval =
    VUndefined
  | VNull
  | VBool bool
  | VNum int
  | VStr string
  | VFun string
  | VElement string "(string \<times> jsval) list"
  | VObj "(string \<times> jsval) list"

type_synonym props = "(string \<times> jsval) list"

text \<open>\<^verbatim>\<open>!!v\<close>: the falsy values are undefined, null, false, 0 and the empty string.\<close>

fun truthy :: "jsval \<Rightarrow> bool" where
  "truthy VUndefined = False"
| "truthy VNull = False"
| "truthy (VBool b) = b"
| "truthy (VNum n) = (n \<noteq> 0)"
| "truthy (VStr s) = (s \<noteq> [])"
| "truthy (VFun f) = True"
| "truthy (VElement t ps) = True"
| "truthy (VObj ps) = True"

text \<open>\<^verbatim>\<open>a || b\<close> is \<open>a\<close> when \<open>a\<close> is truthy, and \<open>b\<close> otherwise.\<close>

definition jsOr :: "jsval \<Rightarrow> jsval \<Rightarrow> jsval" where
  "jsOr a b = (if truthy a then a else b)"

text \<open>\<^verbatim>\<open>typeof v\<close>.\<close>

fun typeof :: "jsval \<Rightarrow> string" where
  "typeof VUndefined = ''undefined''"
| "typeof VNull = ''object''"
| "typeof (VBool b) = ''boolean''"
| "typeof (VNum n) = ''number''"
| "typeof (VStr s) = ''string''"
| "typeof (VFun f) = ''function''"
| "typeof (VElement t ps) = ''object''"
| "typeof (VObj ps) = ''object''"

text \<open>\<^verbatim>\<open>React.isValidElement(v)\<close>.\<close>

fun isValidElement :: "jsval \<Rightarrow> bool" where
  "isValidElement (VElement t ps) = True"
| "isValidElement v = False"

text \<open>\<^verbatim>\<open>s.startsWith(p)\<close>, searching from position 0.\<close>

definition startsWith :: "string \<Rightarrow> string \<Rightarrow> bool" where
  "startsWith s p = (take (length p) s = p)"

text \<open>
  Property read \<^verbatim>\<open>o.k\<close> on the own properties of an object: a missing property reads as
  \<^verbatim>\<open>undefined\<close>.
\<close>

definition getProp :: "props \<Rightarrow> string \<Rightarrow> jsval" where
  "getProp ps k = (case map_of ps k of None \<Rightarrow> VUndefined | Some v \<Rightarrow> v)"

text \<open>
  Object spread \<^verbatim>\<open>{...a, ...b}\<close>: the properties of \<open>b\<close> are assigned over those of \<open>a\<close>; a
  property that \<open>a\<close> already has keeps its position, a new one is appended.
\<close>

definition spread :: "props \<Rightarrow> props \<Rightarrow> props" where
  "spread a b = AList.merge a b"

text \<open>Rest destructuring \<^verbatim>\<open>const {k1, ..., kn, ...rest} = o\<close>: the properties not named.\<close>

definition restProps :: "string list \<Rightarrow> props \<Rightarrow> props" where
  "restProps ks ps = filter (\<lambda>p. fst p \<notin> set ks) ps"


section \<open>Icon: the rendering strategy\<close>

text \<open>
  \<^verbatim>\<open>
  const processAutoStrategy = (content: React.ReactNode): IconStrategyT => {
    if (typeof content === 'string' &&
        (content.startsWith('/') || content.startsWith('http://') ||
         content.startsWith('https://'))) {
      return 'url';
    }
    if (React.isValidElement(content)) { return 'component'; }
    return 'ligature';
  };
  \<close>
\<close>

definition processAutoStrategy :: "jsval \<Rightarrow> jsval" where
  "processAutoStrategy content =
     (if (case content of
            VStr s \<Rightarrow> startsWith s ''/'' \<or> startsWith s ''http://'' \<or> startsWith s ''https://''
          | _ \<Rightarrow> False)
      then VStr ''url''
      else if isValidElement content then VStr ''component''
      else VStr ''ligature'')"

text \<open>
  \<^verbatim>\<open>
  export const getIconStrategy = (content, strategy: string | null,
                                  providerStrategy: string | null) => {
    strategy = strategy || providerStrategy || 'auto';
    if (strategy === 'auto') { return processAutoStrategy(content); }
    return strategy;
  };
  \<close>
\<close>

definition getIconStrategy :: "jsval \<Rightarrow> jsval \<Rightarrow> jsval \<Rightarrow> jsval" where
  "getIconStrategy content strategy providerStrategy =
     (let strategy' = jsOr (jsOr strategy providerStrategy) (VStr ''auto'')
      in if strategy' = VStr ''auto'' then processAutoStrategy content else strategy')"


section \<open>Icon: the component\<close>

text \<open>
  \<^verbatim>\<open>String(v)\<close>, also the conversion of a template literal and of a computed property key.
  A plain object or element prints as \<^verbatim>\<open>[object Object]\<close>; a function prints as its source
  text, which is the name that identifies it here.
\<close>

fun natString :: "nat \<Rightarrow> string" where
  "natString n =
     (if n < 10 then [char_of (48 + n)]
      else natString (n div 10) @ [char_of (48 + n mod 10)])"

declare natString.simps [simp del]

fun jsString :: "jsval \<Rightarrow> string" where
  "jsString VUndefined = ''undefined''"
| "jsString VNull = ''null''"
| "jsString (VBool b) = (if b then ''true'' else ''false'')"
| "jsString (VNum n) = (if n < 0 then ''-'' @ natString (nat (- n)) else natString (nat n))"
| "jsString (VStr s) = s"
| "jsString (VFun f) = f"
| "jsString (VElement t ps) = ''[object Object]''"
| "jsString (VObj ps) = ''[object Object]''"

text \<open>
  \<^verbatim>\<open>{...v}\<close> for the values that \<open>buildIconOptions\<close> returns from its second branch: an
  options object, or a falsy primitive, which spreads to nothing.
\<close>

fun ownProps :: "jsval \<Rightarrow> props" where
  "ownProps (VObj ps) = ps"
| "ownProps v = []"

text \<open>An optional object argument, as in \<^verbatim>\<open>{...o}\<close> or \<^verbatim>\<open>o || {}\<close> with \<open>o\<close> possibly undefined.\<close>

fun optProps :: "props option \<Rightarrow> props" where
  "optProps None = []"
| "optProps (Some ps) = ps"

text \<open>
  \<^verbatim>\<open>React.createElement(type, config, children)\<close>: the props are the config without the
  reserved \<^verbatim>\<open>key\<close> and \<^verbatim>\<open>ref\<close>; a children argument, when given, is stored as the
  \<^verbatim>\<open>children\<close> prop.
\<close>

definition createElement :: "string \<Rightarrow> props \<Rightarrow> jsval option \<Rightarrow> jsval" where
  "createElement type config children =
     (let ps = restProps [''key'', ''ref''] config
      in VElement type (case children of None \<Rightarrow> ps | Some c \<Rightarrow> AList.update ''children'' c ps))"

text \<open>
  \<^verbatim>\<open>
  const renderLigature  = ({ content, ...rest }) => <IconRoot {...rest}>{content}</IconRoot>;
  const renderClassName = ({ content, ...rest }) => <IconRoot {...rest} />;
  const renderUrl       = ({ content, ...rest }) => <IconRoot {...rest} tag="img" src={content} />;
  const renderComponent = ({ content, ...rest }) => <IconRoot {...rest}>{content}</IconRoot>;
  \<close>
\<close>

definition renderLigature :: "props \<Rightarrow> jsval" where
  "renderLigature args =
     createElement ''IconRoot'' (restProps [''content''] args) (Some (getProp args ''content''))"

definition renderClassName :: "props \<Rightarrow> jsval" where
  "renderClassName args = createElement ''IconRoot'' (restProps [''content''] args) None"

definition renderUrl :: "props \<Rightarrow> jsval" where
  "renderUrl args =
     createElement ''IconRoot''
       (AList.update ''src'' (getProp args ''content'')
          (AList.update ''tag'' (VStr ''img'') (restProps [''content''] args)))
       None"

definition renderComponent :: "props \<Rightarrow> jsval" where
  "renderComponent args =
     createElement ''IconRoot'' (restProps [''content''] args) (Some (getProp args ''content''))"

text \<open>
  \<^verbatim>\<open>
  const iconRenderMap = {
    ligature: renderLigature, className: renderClassName, url: renderUrl,
    component: renderComponent, auto: undefined
  };
  \<close>
  The map is a plain object, so \<^verbatim>\<open>iconRenderMap[k]\<close> for a name that is not an own property
  finds the members that every object inherits from \<^verbatim>\<open>Object.prototype\<close>.
\<close>

definition iconRenderMap :: props where
  "iconRenderMap =
     [(''ligature'', VFun ''renderLigature''),
      (''className'', VFun ''renderClassName''),
      (''url'', VFun ''renderUrl''),
      (''component'', VFun ''renderComponent''),
      (''auto'', VUndefined)]"

definition objectPrototypeFunctions :: "string list" where
  "objectPrototypeFunctions =
     [''constructor'', ''hasOwnProperty'', ''isPrototypeOf'', ''propertyIsEnumerable'',
      ''toLocaleString'', ''toString'', ''valueOf'', ''__defineGetter__'',
      ''__defineSetter__'', ''__lookupGetter__'', ''__lookupSetter__'']"

definition iconRenderMapLookup :: "jsval \<Rightarrow> jsval" where
  "iconRenderMapLookup key =
     (let k = jsString key
      in case map_of iconRenderMap k of
           Some v \<Rightarrow> v
         | None \<Rightarrow>
             if k \<in> set objectPrototypeFunctions then VFun (''Object.prototype.'' @ k)
             else if k = ''__proto__'' then VObj []
             else VUndefined)"

text \<open>
  \<^verbatim>\<open>
  const buildIconOptions = (icon?: IconPropT) => {
    if (React.isValidElement(icon) || (icon && typeof icon !== 'object')) {
      return { icon };
    }
    return icon as IconOptions;
  };
  \<close>
\<close>

definition buildIconOptions :: "jsval \<Rightarrow> jsval" where
  "buildIconOptions icon =
     (if isValidElement icon \<or> (truthy icon \<and> typeof icon \<noteq> ''object'')
      then VObj [(''icon'', icon)]
      else icon)"

text \<open>
  The body of \<open>Icon\<close>, constant by constant. The component receives the \<open>icon\<close> prop, the
  deprecated \<open>iconOptions\<close> prop (an options object, or absent), the provider's \<open>icon\<close>
  namespace (an object, or absent) and its remaining props.

  \<^verbatim>\<open>
  const { icon: content, strategy, prefix, basename, render, size, ...optionsRest } =
    { ...buildIconOptions(icon), ...deprecatedIconOption };
  \<close>
\<close>

definition iconOptions :: "jsval \<Rightarrow> props option \<Rightarrow> props" where
  "iconOptions icon deprecatedIconOption =
     spread (ownProps (buildIconOptions icon)) (optProps deprecatedIconOption)"

definition optionsRest :: "props \<Rightarrow> props" where
  "optionsRest options =
     restProps [''icon'', ''strategy'', ''prefix'', ''basename'', ''render'', ''size''] options"

text \<open>
  \<^verbatim>\<open>
  const { basename: providerBasename = null, prefix: providerPrefix = null,
          strategy: providerStrategy = null, render: providerRender = null }
    = providerContext.icon || {};
  \<close>
  A destructuring default replaces \<^verbatim>\<open>undefined\<close> only.
\<close>

definition providerOption :: "props option \<Rightarrow> string \<Rightarrow> jsval" where
  "providerOption providerIcon k =
     (let v = getProp (optProps providerIcon) k in if v = VUndefined then VNull else v)"

text \<open>
  \<^verbatim>\<open>
  const strategyToUse = getIconStrategy(contentToUse, strategy || null, providerStrategy || null);
  const prefixToUse = prefix || providerPrefix;
  const basenameToUse = basename === undefined ? providerBasename : basename;
  const iconClassName =
    strategyToUse === 'className' && typeof content === 'string'
      ? `${String(prefixToUse)}${content}` : null;
  const renderToUse =
    strategyToUse === 'custom'
      ? render || providerRender
      : !!strategyToUse && iconRenderMap[strategyToUse] !== undefined
      ? iconRenderMap[strategyToUse] : undefined;
  \<close>
\<close>

definition strategyToUse :: "props \<Rightarrow> props option \<Rightarrow> jsval" where
  "strategyToUse options providerIcon =
     getIconStrategy (getProp options ''icon'')
       (jsOr (getProp options ''strategy'') VNull)
       (jsOr (providerOption providerIcon ''strategy'') VNull)"

definition prefixToUse :: "props \<Rightarrow> props option \<Rightarrow> jsval" where
  "prefixToUse options providerIcon =
     jsOr (getProp options ''prefix'') (providerOption providerIcon ''prefix'')"

definition basenameToUse :: "props \<Rightarrow> props option \<Rightarrow> jsval" where
  "basenameToUse options providerIcon =
     (if getProp options ''basename'' = VUndefined then providerOption providerIcon ''basename''
      else getProp options ''basename'')"

definition iconClassName :: "props \<Rightarrow> props option \<Rightarrow> jsval" where
  "iconClassName options providerIcon =
     (if strategyToUse options providerIcon = VStr ''className''
         \<and> typeof (getProp options ''icon'') = ''string''
      then VStr (jsString (prefixToUse options providerIcon) @ jsString (getProp options ''icon''))
      else VNull)"

definition renderToUse :: "props \<Rightarrow> props option \<Rightarrow> jsval" where
  "renderToUse options providerIcon =
     (let s = strategyToUse options providerIcon
      in if s = VStr ''custom''
         then jsOr (getProp options ''render'') (providerOption providerIcon ''render'')
         else if truthy s \<and> iconRenderMapLookup s \<noteq> VUndefined then iconRenderMapLookup s
         else VUndefined)"

text \<open>
  The arguments of \<^verbatim>\<open>classNames(...)\<close>, in order: the marker class, the base name, the
  caller's class name, the class name among the options, the class name derived from the
  strategy, and the size modifier keyed by \<^verbatim>\<open>`rmwc-icon--size-${size || ''}`\<close> with the
  value \<^verbatim>\<open>!!size\<close>.
\<close>

definition iconClassArgs :: "props \<Rightarrow> props option \<Rightarrow> props \<Rightarrow> jsval list" where
  "iconClassArgs options providerIcon rest =
     [VStr ''rmwc-icon'',
      basenameToUse options providerIcon,
      getProp rest ''className'',
      getProp (optionsRest options) ''className'',
      iconClassName options providerIcon,
      VObj [(''rmwc-icon--size-'' @ jsString (jsOr (getProp options ''size'') (VStr '''')),
             VBool (truthy (getProp options ''size'')))]]"

text \<open>
  Modelled from the spec: \<open>classNames\<close> of the base package (\<^verbatim>\<open>@rmwc/base\<close>), whose source
  is not among the files. The specification has the rendered output carry a class list
  composed of the marker class, the base class name, the caller's class name, the class
  name derived from the strategy, and the size modifier when a size is set. Accordingly an
  argument contributes itself when it is a non-empty string, its keys with a truthy value
  when it is an object, and nothing when it is null, undefined or false; the class list is
  joined by single spaces.
\<close>

fun classTokens :: "jsval \<Rightarrow> string list" where
  "classTokens (VStr s) = (if s = [] then [] else [s])"
| "classTokens (VObj ps) = map fst (filter (\<lambda>p. truthy (snd p)) ps)"
| "classTokens v = []"

fun joinClasses :: "string list \<Rightarrow> string" where
  "joinClasses [] = []"
| "joinClasses [c] = c"
| "joinClasses (c # cs) = c @ '' '' @ joinClasses cs"

definition classNames :: "jsval list \<Rightarrow> jsval" where
  "classNames args = VStr (joinClasses (concat (map classTokens args)))"

text \<open>
  What the console receives, and what a render returns. The four functions of
  \<open>iconRenderMap\<close> are run; any other value that is called (a render function supplied by
  the caller or the provider, a member inherited from \<^verbatim>\<open>Object.prototype\<close>) stays a call
  that is not evaluated.
\<close>

datatype diagnostic =
    DeprecationWarning string string string
  | IconOptionsDeprecated props
  | ConsoleError string

datatype outcome =
    RenderNull
  | Fragment jsval
  | FragmentOfCall jsval props

definition callRender :: "jsval \<Rightarrow> props \<Rightarrow> outcome" where
  "callRender f args =
     (if f = VFun ''renderLigature'' then Fragment (renderLigature args)
      else if f = VFun ''renderClassName'' then Fragment (renderClassName args)
      else if f = VFun ''renderUrl'' then Fragment (renderUrl args)
      else if f = VFun ''renderComponent'' then Fragment (renderComponent args)
      else FragmentOfCall f args)"

text \<open>
  \<^verbatim>\<open>
  if (!!deprecatedIconOption) {
    const converted = {
      content: typeof icon === 'string' ? icon : `<MyComponent {...}/>`,
      ...deprecatedIconOption
    };
    deprecationWarning(`Icon component prop 'iconOptions' is deprecated. ...
      icon={${JSON.stringify(converted)}}`);
  }
  ...
  if (!renderToUse) {
    console.error(`Icon: rendering not implemented for ${String(strategyToUse)}.`);
    return null;
  }
  return <React.Fragment>{renderToUse({
    ...rest, ...optionsRest, content: contentToUse, className: classNames(...) })}
  </React.Fragment>;
  \<close>
  \<open>classNames\<close> is imported from the base package; the component takes it as the
  parameter \<open>cn\<close>. The deprecation warning is recorded with the converted options object it
  prints.
\<close>

definition iconDeprecation :: "jsval \<Rightarrow> props option \<Rightarrow> diagnostic list" where
  "iconDeprecation icon deprecatedIconOption =
     (case deprecatedIconOption of
        None \<Rightarrow> []
      | Some d \<Rightarrow>
          [IconOptionsDeprecated
             (spread [(''content'', if typeof icon = ''string'' then icon
                                   else VStr ''<MyComponent {...}/>'')] d)])"

definition Icon ::
  "(jsval list \<Rightarrow> jsval) \<Rightarrow> jsval \<Rightarrow> props option \<Rightarrow> props option \<Rightarrow> props
     \<Rightarrow> outcome \<times> diagnostic list" where
  "Icon cn icon deprecatedIconOption providerIcon rest =
     (let warnings = iconDeprecation icon deprecatedIconOption;
          options = iconOptions icon deprecatedIconOption;
          f = renderToUse options providerIcon
      in if \<not> truthy f
         then (RenderNull,
               warnings @ [ConsoleError (''Icon: rendering not implemented for ''
                             @ jsString (strategyToUse options providerIcon) @ ''.'')])
         else (callRender f
                 (AList.update ''className''
                    (cn (iconClassArgs options providerIcon rest))
                    (AList.update ''content'' (getProp options ''icon'')
                       (spread rest (optionsRest options)))),
               warnings))"


section \<open>Menu item\<close>

text \<open>
  \<^verbatim>\<open>
  const MenuItem = props => (
    <ListItem role="menuitem" tabIndex="0" {...props}>{props.children}</ListItem>
  );
  \<close>
\<close>

definition MenuItem :: "props \<Rightarrow> jsval" where
  "MenuItem ps =
     createElement ''ListItem''
       (spread [(''role'', VStr ''menuitem''), (''tabIndex'', VStr ''0'')] ps)
       (Some (getProp ps ''children''))"

text \<open>The props of an element; a value that is not an element has none.\<close>

fun elementProps :: "jsval \<Rightarrow> props" where
  "elementProps (VElement t ps) = ps"
| "elementProps v = []"


section \<open>Snackbar\<close>

text \<open>
  The foundation is an external object. The component drives it through its entry points and
  patches its timeout field, so it is modelled by the sequence of calls it has received and
  that field. A click event is modelled by its target: an element with its class list, or a
  target that is not an element.
\<close>

datatype eventTarget = ElementTarget "string list" | OtherTarget

datatype foundationCall =
    FoundationOpen
  | HandleKeyDown eventTarget
  | HandleActionButtonClick eventTarget
  | HandleActionIconClick eventTarget

record foundation =
  calls :: "foundationCall list"
  autoDismissTimeoutMs :: jsval

text \<open>
  \<^verbatim>\<open>
  getPropsWithDeprecations(props: SnackbarProps) {
    return handleDeprecations(props,
      { show: 'open', onShow: 'onOpen', onHide: 'onClose', alignStart: 'leading',
        multiline: '', actionOnBottom: 'stacked', actionHandler: '', actionText: '' },
      'Snackbar');
  }
  \<close>
  \<open>handleDeprecations\<close> is imported from the base package; the methods of the component take
  it as a parameter, a function from the props, the deprecation map and the component name
  to the normalized props.
\<close>

type_synonym deprecationResolver = "props \<Rightarrow> (string \<times> string) list \<Rightarrow> string \<Rightarrow> props"

definition snackbarDeprecations :: "(string \<times> string) list" where
  "snackbarDeprecations =
     [(''show'', ''open''),
      (''onShow'', ''onOpen''),
      (''onHide'', ''onClose''),
      (''alignStart'', ''leading''),
      (''multiline'', ''''),
      (''actionOnBottom'', ''stacked''),
      (''actionHandler'', ''''),
      (''actionText'', '''')]"

definition getPropsWithDeprecations :: "deprecationResolver \<Rightarrow> props \<Rightarrow> props" where
  "getPropsWithDeprecations resolver ps = resolver ps snackbarDeprecations ''Snackbar''"

text \<open>
  \<^verbatim>\<open>
  sync(props: SnackbarProps, prevProps: SnackbarProps) {
    props = this.getPropsWithDeprecations(props);
    prevProps = this.getPropsWithDeprecations(prevProps);
    if (props.open !== prevProps.open && props.open) { this.foundation.open(); }
    if (props.timeout !== prevProps.timeout) {
      this.foundation.autoDismissTimeoutMs_ = props.timeout;
    }
  }
  \<close>
  \<^verbatim>\<open>!==\<close> is the inequality of values here: \<open>open\<close> is a boolean and \<open>timeout\<close> a number, or
  undefined, and on primitive values strict equality is equality.
\<close>

definition sync :: "deprecationResolver \<Rightarrow> props \<Rightarrow> props \<Rightarrow> foundation \<Rightarrow> foundation" where
  "sync resolver ps prevPs fnd =
     (let ps' = getPropsWithDeprecations resolver ps;
          prevPs' = getPropsWithDeprecations resolver prevPs;
          fnd1 = (if getProp ps' ''open'' \<noteq> getProp prevPs' ''open'' \<and> truthy (getProp ps' ''open'')
                  then fnd\<lparr>calls := calls fnd @ [FoundationOpen]\<rparr>
                  else fnd)
      in if getProp ps' ''timeout'' \<noteq> getProp prevPs' ''timeout''
         then fnd1\<lparr>autoDismissTimeoutMs := getProp ps' ''timeout''\<rparr>
         else fnd1)"

text \<open>
  \<^verbatim>\<open>
  handleSurfaceClick(evt: React.MouseEvent) {
    if (evt.target instanceof Element) {
      if (this.props.dismissesOnAction &&
          evt.target.classList.contains('mdc-snackbar__action')) {
        this.foundation.handleActionButtonClick(evt);
      } else if (evt.target.classList.contains('mdc-snackbar__dismiss')) {
        this.foundation.handleActionIconClick(evt);
      }
    }
  }
  \<close>
  The first argument is \<^verbatim>\<open>this.props\<close>.
\<close>

definition handleSurfaceClick :: "props \<Rightarrow> eventTarget \<Rightarrow> foundation \<Rightarrow> foundation" where
  "handleSurfaceClick ps evt fnd =
     (case evt of
        ElementTarget classList \<Rightarrow>
          if truthy (getProp ps ''dismissesOnAction'') \<and> ''mdc-snackbar__action'' \<in> set classList
          then fnd\<lparr>calls := calls fnd @ [HandleActionButtonClick evt]\<rparr>
          else if ''mdc-snackbar__dismiss'' \<in> set classList
          then fnd\<lparr>calls := calls fnd @ [HandleActionIconClick evt]\<rparr>
          else fnd
      | OtherTarget \<Rightarrow> fnd)"


section \<open>The deprecation resolver\<close>

text \<open>
  Modelled from the spec: \<open>handleDeprecations\<close> of the base package
  (\<^verbatim>\<open>@rmwc/base/utils/deprecation\<close>), which the Snackbar imports and whose source is not
  among the files. The specification gives its contract. For each key of the map that is
  present in the props with a value other than undefined: when the replacement is not
  empty, the value is copied onto the replacement key, only if the replacement key is not
  already set (it reads undefined), and the deprecated key is removed; when the
  replacement is empty, the deprecated key is removed. One diagnostic is emitted per
  deprecated key that is present, naming the component, the deprecated prop and its
  replacement. The input is not mutated: the result is a new props object.

  \<open>deprecate\<close> is the step for one deprecated key that is present.
\<close>

definition deprecate :: "props \<Rightarrow> string \<Rightarrow> string \<Rightarrow> props" where
  "deprecate ps old new =
     (if new = [] then AList.delete old ps
      else if getProp ps new = VUndefined
      then AList.delete old (AList.update new (getProp ps old) ps)
      else AList.delete old ps)"

text \<open>
  Modelled from the spec: the resolver, one step for each key of the map, in the order of
  the map.
\<close>

fun handleDeprecations :: deprecationResolver where
  "handleDeprecations ps [] name = ps"
| "handleDeprecations ps ((old, new) # m) name =
     (if getProp ps old \<noteq> VUndefined then handleDeprecations (deprecate ps old new) m name
      else handleDeprecations ps m name)"

text \<open>
  Modelled from the spec: the diagnostics of a pass, one for each deprecated key that is
  present when its turn comes.
\<close>

fun deprecationDiagnostics :: "props \<Rightarrow> (string \<times> string) list \<Rightarrow> string \<Rightarrow> diagnostic list" where
  "deprecationDiagnostics ps [] name = []"
| "deprecationDiagnostics ps ((old, new) # m) name =
     (if getProp ps old \<noteq> VUndefined
      then DeprecationWarning name old new # deprecationDiagnostics (deprecate ps old new) m name
      else deprecationDiagnostics ps m name)"


section \<open>Properties of the strategy resolver\<close>

lemma startsWith_append: "startsWith (p @ r) p"
  by (simp add: startsWith_def)

lemma startsWith_iff: "startsWith s p \<longleftrightarrow> (\<exists>r. s = p @ r)"
proof
  assume "startsWith s p"
  then have "s = p @ drop (length p) s"
    by (metis append_take_drop_id startsWith_def)
  then show "\<exists>r. s = p @ r" ..
next
  assume "\<exists>r. s = p @ r"
  then show "startsWith s p" by (auto simp: startsWith_def)
qed

text \<open>
  C1, as stated, fails: an explicit strategy \<^verbatim>\<open>'auto'\<close> is truthy, so
  \<^verbatim>\<open>strategy || providerStrategy\<close> never reaches the inherited strategy. With content
  \<^verbatim>\<open>'home'\<close>, explicit \<^verbatim>\<open>'auto'\<close> and inherited \<^verbatim>\<open>'className'\<close> the result is the inferred
  \<^verbatim>\<open>'ligature'\<close>, not the inherited \<^verbatim>\<open>'className'\<close>.
\<close>

theorem getIconStrategy_explicit_auto_counterexample:
  "getIconStrategy (VStr ''home'') (VStr ''auto'') (VStr ''className'') = VStr ''ligature''
   \<and> getIconStrategy (VStr ''home'') (VStr ''auto'') (VStr ''className'') \<noteq> VStr ''className''"
  by (simp add: getIconStrategy_def jsOr_def processAutoStrategy_def startsWith_def)

text \<open>
  C1, amended. An explicit strategy that is set (truthy: a non-empty string) and is not
  \<^verbatim>\<open>'auto'\<close> is returned unchanged. When the explicit strategy is unset (null, undefined or
  empty) and an inherited strategy is set, the inherited strategy is used: it is returned
  unchanged when it is not \<^verbatim>\<open>'auto'\<close> and stands for automatic inference when it is. An
  explicit \<^verbatim>\<open>'auto'\<close> is resolved by automatic inference from the content, whatever the
  inherited strategy.
\<close>

theorem getIconStrategy_precedence:
  "(truthy strategy \<and> strategy \<noteq> VStr ''auto''
      \<longrightarrow> getIconStrategy content strategy providerStrategy = strategy)
   \<and> (\<not> truthy strategy \<and> truthy providerStrategy \<and> providerStrategy \<noteq> VStr ''auto''
      \<longrightarrow> getIconStrategy content strategy providerStrategy = providerStrategy)
   \<and> (\<not> truthy strategy \<and> providerStrategy = VStr ''auto''
      \<longrightarrow> getIconStrategy content strategy providerStrategy = processAutoStrategy content)
   \<and> (strategy = VStr ''auto''
      \<longrightarrow> getIconStrategy content strategy providerStrategy = processAutoStrategy content)"
  by (simp add: getIconStrategy_def jsOr_def)

theorem getIconStrategy_precedence_witness:
  "getIconStrategy (VStr ''home'') (VStr ''className'') (VStr ''url'') = VStr ''className''
   \<and> getIconStrategy (VStr ''home'') VNull (VStr ''className'') = VStr ''className''
   \<and> getIconStrategy (VStr ''/a.png'') VNull (VStr ''auto'') = VStr ''url''
   \<and> getIconStrategy (VStr ''/a.png'') (VStr ''auto'') (VStr ''className'') = VStr ''url''"
  using getIconStrategy_precedence [where content = "VStr ''home''"
          and strategy = "VStr ''className''" and providerStrategy = "VStr ''url''"]
        getIconStrategy_precedence [where content = "VStr ''home''"
          and strategy = VNull and providerStrategy = "VStr ''className''"]
        getIconStrategy_precedence [where content = "VStr ''/a.png''"
          and strategy = VNull and providerStrategy = "VStr ''auto''"]
        getIconStrategy_precedence [where content = "VStr ''/a.png''"
          and strategy = "VStr ''auto''" and providerStrategy = "VStr ''className''"]
  by (simp add: processAutoStrategy_def startsWith_def)

text \<open>
  C4. With neither an explicit nor an inherited strategy set, string content that begins
  with \<^verbatim>\<open>/\<close>, \<^verbatim>\<open>http://\<close> or \<^verbatim>\<open>https://\<close> resolves to \<^verbatim>\<open>'url'\<close>, a React element resolves to
  \<^verbatim>\<open>'component'\<close>, and every other content resolves to \<^verbatim>\<open>'ligature'\<close>.
\<close>

theorem getIconStrategy_auto_inference:
  assumes "\<not> truthy strategy" and "\<not> truthy providerStrategy"
  shows "getIconStrategy (VStr (''/'' @ r)) strategy providerStrategy = VStr ''url''
       \<and> getIconStrategy (VStr (''http://'' @ r)) strategy providerStrategy = VStr ''url''
       \<and> getIconStrategy (VStr (''https://'' @ r)) strategy providerStrategy = VStr ''url''
       \<and> getIconStrategy (VElement t ps) strategy providerStrategy = VStr ''component''
       \<and> (\<not> isValidElement content
            \<and> (\<forall>s. content = VStr s \<longrightarrow>
                  (\<forall>q. s \<noteq> ''/'' @ q \<and> s \<noteq> ''http://'' @ q \<and> s \<noteq> ''https://'' @ q))
            \<longrightarrow> getIconStrategy content strategy providerStrategy = VStr ''ligature'')"
proof -
  have auto: "getIconStrategy c strategy providerStrategy = processAutoStrategy c" for c
    using assms by (simp add: getIconStrategy_def jsOr_def)
  have slash: "processAutoStrategy (VStr (''/'' @ r)) = VStr ''url''"
    by (simp add: processAutoStrategy_def startsWith_def)
  have http: "processAutoStrategy (VStr (''http://'' @ r)) = VStr ''url''"
    by (simp add: processAutoStrategy_def startsWith_def)
  have https: "processAutoStrategy (VStr (''https://'' @ r)) = VStr ''url''"
    by (simp add: processAutoStrategy_def startsWith_def)
  have element: "processAutoStrategy (VElement t ps) = VStr ''component''"
    by (simp add: processAutoStrategy_def)
  have other: "processAutoStrategy content = VStr ''ligature''"
    if "\<not> isValidElement content"
      and "\<forall>s. content = VStr s \<longrightarrow>
             (\<forall>q. s \<noteq> ''/'' @ q \<and> s \<noteq> ''http://'' @ q \<and> s \<noteq> ''https://'' @ q)"
    using that by (cases content) (auto simp: processAutoStrategy_def startsWith_iff)
  show ?thesis
    unfolding auto using slash http https element other by blast
qed

theorem getIconStrategy_auto_inference_witness:
  "getIconStrategy (VStr ''/img/star.png'') VNull VNull = VStr ''url''
   \<and> getIconStrategy (VStr ''http://example.com/a.svg'') VNull VNull = VStr ''url''
   \<and> getIconStrategy (VStr ''https://example.com/a.svg'') VNull VNull = VStr ''url''
   \<and> getIconStrategy (VElement ''svg'' []) VNull VNull = VStr ''component''
   \<and> getIconStrategy (VStr ''favorite'') VNull VNull = VStr ''ligature''"
proof -
  have n: "\<not> truthy VNull" by simp
  have other: "\<forall>s. VStr ''favorite'' = VStr s \<longrightarrow>
      (\<forall>q. s \<noteq> ''/'' @ q \<and> s \<noteq> ''http://'' @ q \<and> s \<noteq> ''https://'' @ q)"
    by simp
  show ?thesis
    using getIconStrategy_auto_inference [OF n n, where r = "''img/star.png''"]
          getIconStrategy_auto_inference [OF n n, where r = "''example.com/a.svg''"
            and t = "''svg''" and ps = "[]" and content = "VStr ''favorite''"]
          other
    by simp
qed

section \<open>Reading properties of composed objects\<close>

lemma getProp_update:
  "getProp (AList.update k v ps) k' = (if k' = k then v else getProp ps k')"
  by (simp add: getProp_def update_conv')

lemma getProp_delete:
  "getProp (AList.delete k ps) k' = (if k' = k then VUndefined else getProp ps k')"
  by (simp add: getProp_def delete_conv')

lemma getProp_spread:
  "getProp (spread a b) k = (if k \<in> fst ` set b then getProp b k else getProp a k)"
proof (cases "map_of b k")
  case None
  then have "k \<notin> fst ` set b" by (simp add: map_of_eq_None_iff)
  with None show ?thesis by (simp add: getProp_def spread_def merge_conv' map_add_def)
next
  case (Some v)
  then have "k \<in> fst ` set b" by (metis map_of_eq_None_iff option.distinct(1))
  with Some show ?thesis by (simp add: getProp_def spread_def merge_conv' map_add_def)
qed

lemma map_of_restProps:
  "map_of (restProps ks ps) k = (if k \<in> set ks then None else map_of ps k)"
  unfolding restProps_def by (induction ps) auto

lemma getProp_restProps:
  "getProp (restProps ks ps) k = (if k \<in> set ks then VUndefined else getProp ps k)"
  by (simp add: getProp_def map_of_restProps)

lemma getProp_absent: "k \<notin> fst ` set ps \<Longrightarrow> getProp ps k = VUndefined"
  by (simp add: getProp_def map_of_eq_None_iff [THEN iffD2])

lemma getProp_Nil: "getProp [] k = VUndefined"
  by (simp add: getProp_def)

lemma getProp_Cons: "getProp ((k, v) # ps) k' = (if k' = k then v else getProp ps k')"
  by (simp add: getProp_def)

lemma elementProps_createElement:
  "getProp (elementProps (createElement t config children)) k =
     (if k = ''children'' \<and> children \<noteq> None then the children
      else if k \<in> {''key'', ''ref''} then VUndefined
      else getProp config k)"
  by (cases children) (auto simp: createElement_def getProp_update getProp_restProps)


section \<open>Properties of the Icon component\<close>

lemma strategyToUse_truthy: "truthy (strategyToUse options providerIcon)"
  by (simp add: strategyToUse_def getIconStrategy_def jsOr_def processAutoStrategy_def Let_def)







text \<open>
  The error branch of the component: it is taken exactly on a falsy \<open>renderToUse\<close>, which
  covers the strategy \<^verbatim>\<open>'custom'\<close> without a render function and every other strategy
  whose lookup in the dispatch map is undefined.
\<close>

lemma Icon_unresolved:
  assumes "\<not> truthy (renderToUse (iconOptions icon deprecatedIconOption) providerIcon)"
  shows "Icon cn icon deprecatedIconOption providerIcon rest =
           (RenderNull,
            iconDeprecation icon deprecatedIconOption
            @ [ConsoleError (''Icon: rendering not implemented for ''
                 @ jsString (strategyToUse (iconOptions icon deprecatedIconOption) providerIcon)
                 @ ''.'')])"
  using assms by (simp add: Icon_def Let_def)

lemma Icon_null_for_unresolved_strategy:
  assumes "(strategyToUse (iconOptions icon deprecatedIconOption) providerIcon = VStr ''custom''
            \<and> \<not> truthy (getProp (iconOptions icon deprecatedIconOption) ''render'')
            \<and> \<not> truthy (providerOption providerIcon ''render''))
         \<or> (strategyToUse (iconOptions icon deprecatedIconOption) providerIcon \<noteq> VStr ''custom''
            \<and> iconRenderMapLookup (strategyToUse (iconOptions icon deprecatedIconOption) providerIcon)
                = VUndefined)"
  shows "Icon cn icon deprecatedIconOption providerIcon rest =
           (RenderNull,
            iconDeprecation icon deprecatedIconOption
            @ [ConsoleError (''Icon: rendering not implemented for ''
                 @ jsString (strategyToUse (iconOptions icon deprecatedIconOption) providerIcon)
                 @ ''.'')])"
proof -
  have "\<not> truthy (renderToUse (iconOptions icon deprecatedIconOption) providerIcon)"
    using assms by (auto simp: renderToUse_def jsOr_def Let_def)
  then show ?thesis by (simp add: Icon_def Let_def)
qed

text \<open>
  C6 has the component log an error and return null, instead of throwing, whenever the
  resolved strategy has no render function in the dispatch map. The code tests
  \<^verbatim>\<open>iconRenderMap[strategyToUse] !== undefined\<close> on a plain object, and so misses the names
  of the members that the map inherits from \<^verbatim>\<open>Object.prototype\<close>. For the strategy
  \<^verbatim>\<open>'__proto__'\<close> the lookup is the prototype object and for \<^verbatim>\<open>'toString'\<close> it is the
  inherited function: neither is a render function of the map, yet no error is logged,
  null is not returned, and the value found is called with the render arguments. The
  strategy \<^verbatim>\<open>'sprite'\<close>, which is no member of any kind, takes the error branch.
\<close>

theorem Icon_inherited_member_strategy:
  "Icon classNames (VObj [(''icon'', VStr ''star''), (''strategy'', VStr ''__proto__'')]) None None []
     = (FragmentOfCall (VObj [])
          [(''content'', VStr ''star''), (''className'', VStr ''rmwc-icon'')], [])
   \<and> Icon classNames (VObj [(''icon'', VStr ''star''), (''strategy'', VStr ''toString'')]) None None []
     = (FragmentOfCall (VFun ''Object.prototype.toString'')
          [(''content'', VStr ''star''), (''className'', VStr ''rmwc-icon'')], [])
   \<and> Icon classNames (VObj [(''icon'', VStr ''star''), (''strategy'', VStr ''sprite'')]) None None []
     = (RenderNull, [ConsoleError ''Icon: rendering not implemented for sprite.''])"
  by code_simp




section \<open>Properties of the menu item\<close>

text \<open>
  C3, as stated, fails: the caller's props are spread after \<^verbatim>\<open>role\<close> and \<^verbatim>\<open>tabIndex\<close>, so
  a role or tabIndex among them replaces the fixed one. With the props
  \<^verbatim>\<open>{role: 'option', tabIndex: -1}\<close> the list item is rendered with role \<^verbatim>\<open>'option'\<close> and
  tabIndex \<^verbatim>\<open>-1\<close>.
\<close>

theorem MenuItem_role_override_counterexample:
  "getProp (elementProps (MenuItem [(''role'', VStr ''option''), (''tabIndex'', VNum (- 1))])) ''role''
     = VStr ''option''
   \<and> getProp (elementProps (MenuItem [(''role'', VStr ''option''), (''tabIndex'', VNum (- 1))])) ''role''
     \<noteq> VStr ''menuitem''
   \<and> getProp (elementProps (MenuItem [(''role'', VStr ''option''), (''tabIndex'', VNum (- 1))])) ''tabIndex''
     = VNum (- 1)"
  by (simp add: MenuItem_def elementProps_createElement getProp_spread getProp_Cons)

text \<open>
  C3, amended. The menu item renders the list item with role \<^verbatim>\<open>"menuitem"\<close> and tabIndex
  \<^verbatim>\<open>"0"\<close> as defaults: each holds when the caller's props have no property of that name,
  and a role or tabIndex of the caller replaces it. The children and every other prop
  (\<^verbatim>\<open>key\<close> and \<^verbatim>\<open>ref\<close>, which React reserves, apart) are forwarded unchanged.
\<close>

theorem MenuItem_defaults:
  "getProp (elementProps (MenuItem ps)) ''role''
     = (if ''role'' \<in> fst ` set ps then getProp ps ''role'' else VStr ''menuitem'')
   \<and> getProp (elementProps (MenuItem ps)) ''tabIndex''
     = (if ''tabIndex'' \<in> fst ` set ps then getProp ps ''tabIndex'' else VStr ''0'')
   \<and> getProp (elementProps (MenuItem ps)) ''children'' = getProp ps ''children''
   \<and> (\<forall>k. k \<notin> {''role'', ''tabIndex'', ''children'', ''key'', ''ref''}
          \<longrightarrow> getProp (elementProps (MenuItem ps)) k = getProp ps k)"
  by (simp add: MenuItem_def elementProps_createElement getProp_spread getProp_Cons getProp_Nil
        getProp_absent)

theorem MenuItem_defaults_witness:
  "getProp (elementProps (MenuItem [(''onClick'', VFun ''cut''), (''children'', VStr ''Cut'')])) ''role''
     = VStr ''menuitem''
   \<and> getProp (elementProps (MenuItem [(''onClick'', VFun ''cut''), (''children'', VStr ''Cut'')])) ''tabIndex''
     = VStr ''0''
   \<and> getProp (elementProps (MenuItem [(''onClick'', VFun ''cut''), (''children'', VStr ''Cut'')])) ''children''
     = VStr ''Cut''
   \<and> getProp (elementProps (MenuItem [(''onClick'', VFun ''cut''), (''children'', VStr ''Cut'')])) ''onClick''
     = VFun ''cut''"
  using MenuItem_defaults [of "[(''onClick'', VFun ''cut''), (''children'', VStr ''Cut'')]"]
  by (simp add: getProp_Cons getProp_Nil)


section \<open>Properties of the Snackbar\<close>

lemma sync_calls:
  "calls (sync resolver ps prevPs fnd) =
     (if getProp (getPropsWithDeprecations resolver ps) ''open''
           \<noteq> getProp (getPropsWithDeprecations resolver prevPs) ''open''
         \<and> truthy (getProp (getPropsWithDeprecations resolver ps) ''open'')
      then calls fnd @ [FoundationOpen] else calls fnd)"
  by (simp add: sync_def Let_def)

lemma open_transition:
  assumes "a \<in> {VUndefined, VBool False, VBool True}"
    and "b \<in> {VUndefined, VBool False, VBool True}"
  shows "(a \<noteq> b \<and> truthy a) \<longleftrightarrow> (a = VBool True \<and> b \<in> {VUndefined, VBool False})"
proof -
  from assms(1) consider "a = VUndefined" | "a = VBool False" | "a = VBool True" by blast
  then show ?thesis
  proof cases
    case 1 then show ?thesis by simp
  next
    case 2 then show ?thesis by simp
  next
    case 3
    from assms(2) consider "b = VUndefined" | "b = VBool False" | "b = VBool True" by blast
    then show ?thesis using 3 by cases simp_all
  qed
qed

text \<open>
  C7. The open flag of the normalized props is a boolean or absent. During \<open>sync\<close> the
  foundation's \<open>open\<close> entry point is called, once, exactly when that flag is true in the
  new props and false or absent in the previous props; in every other case the foundation
  receives no call. This holds for every resolver of deprecations.
\<close>

theorem sync_open:
  assumes "getProp (getPropsWithDeprecations resolver ps) ''open'' \<in> {VUndefined, VBool False, VBool True}"
    and "getProp (getPropsWithDeprecations resolver prevPs) ''open'' \<in> {VUndefined, VBool False, VBool True}"
  shows "calls (sync resolver ps prevPs fnd) =
           (if getProp (getPropsWithDeprecations resolver ps) ''open'' = VBool True
               \<and> getProp (getPropsWithDeprecations resolver prevPs) ''open'' \<in> {VUndefined, VBool False}
            then calls fnd @ [FoundationOpen]
            else calls fnd)"
  unfolding sync_calls open_transition [OF assms] ..

theorem sync_open_witness:
  "calls (sync handleDeprecations [(''open'', VBool True)] [(''open'', VBool False)]
            \<lparr>calls = [], autoDismissTimeoutMs = VNum 5000\<rparr>) = [FoundationOpen]
   \<and> calls (sync handleDeprecations [(''show'', VBool True)] []
            \<lparr>calls = [], autoDismissTimeoutMs = VNum 5000\<rparr>) = [FoundationOpen]
   \<and> calls (sync handleDeprecations [(''open'', VBool True)] [(''open'', VBool True)]
            \<lparr>calls = [], autoDismissTimeoutMs = VNum 5000\<rparr>) = []
   \<and> calls (sync handleDeprecations [(''open'', VBool False)] [(''open'', VBool True)]
            \<lparr>calls = [], autoDismissTimeoutMs = VNum 5000\<rparr>) = []"
proof -
  let ?f = "\<lparr>calls = [], autoDismissTimeoutMs = VNum 5000\<rparr>"
  have n1: "getProp (getPropsWithDeprecations handleDeprecations [(''open'', VBool True)]) ''open''
      = VBool True"
    by code_simp
  have n2: "getProp (getPropsWithDeprecations handleDeprecations [(''open'', VBool False)]) ''open''
      = VBool False"
    by code_simp
  have n3: "getProp (getPropsWithDeprecations handleDeprecations [(''show'', VBool True)]) ''open''
      = VBool True"
    by code_simp
  have n4: "getProp (getPropsWithDeprecations handleDeprecations []) ''open'' = VUndefined"
    by code_simp
  have t1: "getProp (getPropsWithDeprecations handleDeprecations [(''open'', VBool True)]) ''open''
      \<in> {VUndefined, VBool False, VBool True}"
    unfolding n1 by simp
  have t2: "getProp (getPropsWithDeprecations handleDeprecations [(''open'', VBool False)]) ''open''
      \<in> {VUndefined, VBool False, VBool True}"
    unfolding n2 by simp
  have t3: "getProp (getPropsWithDeprecations handleDeprecations [(''show'', VBool True)]) ''open''
      \<in> {VUndefined, VBool False, VBool True}"
    unfolding n3 by simp
  have t4: "getProp (getPropsWithDeprecations handleDeprecations []) ''open''
      \<in> {VUndefined, VBool False, VBool True}"
    unfolding n4 by simp
  have a: "calls (sync handleDeprecations [(''open'', VBool True)] [(''open'', VBool False)] ?f)
      = [FoundationOpen]"
    using sync_open [OF t1 t2, of ?f] by (simp add: n1 n2)
  have b: "calls (sync handleDeprecations [(''show'', VBool True)] [] ?f) = [FoundationOpen]"
    using sync_open [OF t3 t4, of ?f] by (simp add: n3 n4)
  have c: "calls (sync handleDeprecations [(''open'', VBool True)] [(''open'', VBool True)] ?f) = []"
    using sync_open [OF t1 t1, of ?f] by (simp add: n1)
  have d: "calls (sync handleDeprecations [(''open'', VBool False)] [(''open'', VBool True)] ?f) = []"
    using sync_open [OF t2 t1, of ?f] by (simp add: n1 n2)
  from a b c d show ?thesis by blast
qed

text \<open>
  C8, as stated, fails on a click target that carries both the action class and the
  dismiss class: with \<open>dismissesOnAction\<close> false the dismiss-icon entry point is called,
  although the claim has an action click trigger no dismissal then, and with
  \<open>dismissesOnAction\<close> true the action entry point is called and the dismiss-icon entry
  point is not, although the target carries the dismiss class.
\<close>

theorem handleSurfaceClick_both_classes_counterexample:
  "calls (handleSurfaceClick [(''dismissesOnAction'', VBool False)]
            (ElementTarget [''mdc-snackbar__action'', ''mdc-snackbar__dismiss''])
            \<lparr>calls = [], autoDismissTimeoutMs = VNum 5000\<rparr>)
     = [HandleActionIconClick (ElementTarget [''mdc-snackbar__action'', ''mdc-snackbar__dismiss''])]
   \<and> calls (handleSurfaceClick [(''dismissesOnAction'', VBool True)]
            (ElementTarget [''mdc-snackbar__action'', ''mdc-snackbar__dismiss''])
            \<lparr>calls = [], autoDismissTimeoutMs = VNum 5000\<rparr>)
     = [HandleActionButtonClick (ElementTarget [''mdc-snackbar__action'', ''mdc-snackbar__dismiss''])]"
  by (simp add: handleSurfaceClick_def getProp_Cons)

text \<open>
  C8, amended. For a click whose target is an element: when the target carries the action
  class and \<open>dismissesOnAction\<close> is true, the action-button-click entry point is called
  exactly once and nothing else is; otherwise, when the target carries the dismiss class,
  the dismiss-icon entry point is called exactly once; with \<open>dismissesOnAction\<close> false a
  click on a target with the action class and without the dismiss class calls nothing; a
  click on a target with neither class, or on a target that is not an element, calls
  nothing.
\<close>

theorem handleSurfaceClick_dispatch:
  "(truthy (getProp ps ''dismissesOnAction'') \<and> ''mdc-snackbar__action'' \<in> set classList
      \<longrightarrow> calls (handleSurfaceClick ps (ElementTarget classList) fnd)
            = calls fnd @ [HandleActionButtonClick (ElementTarget classList)])
   \<and> (\<not> (truthy (getProp ps ''dismissesOnAction'') \<and> ''mdc-snackbar__action'' \<in> set classList)
        \<and> ''mdc-snackbar__dismiss'' \<in> set classList
      \<longrightarrow> calls (handleSurfaceClick ps (ElementTarget classList) fnd)
            = calls fnd @ [HandleActionIconClick (ElementTarget classList)])
   \<and> (\<not> truthy (getProp ps ''dismissesOnAction'') \<and> ''mdc-snackbar__action'' \<in> set classList
        \<and> ''mdc-snackbar__dismiss'' \<notin> set classList
      \<longrightarrow> handleSurfaceClick ps (ElementTarget classList) fnd = fnd)
   \<and> (''mdc-snackbar__action'' \<notin> set classList \<and> ''mdc-snackbar__dismiss'' \<notin> set classList
      \<longrightarrow> handleSurfaceClick ps (ElementTarget classList) fnd = fnd)
   \<and> handleSurfaceClick ps OtherTarget fnd = fnd"
  by (simp add: handleSurfaceClick_def)

theorem handleSurfaceClick_dispatch_witness:
  "calls (handleSurfaceClick [(''dismissesOnAction'', VBool True)]
            (ElementTarget [''mdc-button'', ''mdc-snackbar__action''])
            \<lparr>calls = [], autoDismissTimeoutMs = VNum 5000\<rparr>)
     = [HandleActionButtonClick (ElementTarget [''mdc-button'', ''mdc-snackbar__action''])]
   \<and> calls (handleSurfaceClick [(''dismissesOnAction'', VBool True)]
            (ElementTarget [''mdc-icon-button'', ''mdc-snackbar__dismiss''])
            \<lparr>calls = [], autoDismissTimeoutMs = VNum 5000\<rparr>)
     = [HandleActionIconClick (ElementTarget [''mdc-icon-button'', ''mdc-snackbar__dismiss''])]
   \<and> handleSurfaceClick [(''dismissesOnAction'', VBool False)]
            (ElementTarget [''mdc-button'', ''mdc-snackbar__action''])
            \<lparr>calls = [], autoDismissTimeoutMs = VNum 5000\<rparr>
     = \<lparr>calls = [], autoDismissTimeoutMs = VNum 5000\<rparr>
   \<and> handleSurfaceClick [(''dismissesOnAction'', VBool True)]
            (ElementTarget [''mdc-snackbar__label''])
            \<lparr>calls = [], autoDismissTimeoutMs = VNum 5000\<rparr>
     = \<lparr>calls = [], autoDismissTimeoutMs = VNum 5000\<rparr>"
  using handleSurfaceClick_dispatch [of "[(''dismissesOnAction'', VBool True)]"
          "[''mdc-button'', ''mdc-snackbar__action'']" "\<lparr>calls = [], autoDismissTimeoutMs = VNum 5000\<rparr>"]
        handleSurfaceClick_dispatch [of "[(''dismissesOnAction'', VBool True)]"
          "[''mdc-icon-button'', ''mdc-snackbar__dismiss'']" "\<lparr>calls = [], autoDismissTimeoutMs = VNum 5000\<rparr>"]
        handleSurfaceClick_dispatch [of "[(''dismissesOnAction'', VBool False)]"
          "[''mdc-button'', ''mdc-snackbar__action'']" "\<lparr>calls = [], autoDismissTimeoutMs = VNum 5000\<rparr>"]
        handleSurfaceClick_dispatch [of "[(''dismissesOnAction'', VBool True)]"
          "[''mdc-snackbar__label'']" "\<lparr>calls = [], autoDismissTimeoutMs = VNum 5000\<rparr>"]
  by (simp add: getProp_Cons)


section \<open>Properties of the deprecation resolver\<close>

lemma getProp_deprecate:
  "getProp (deprecate ps old new) k =
     (if k = old then VUndefined
      else if k = new \<and> new \<noteq> [] \<and> getProp ps new = VUndefined then getProp ps old
      else getProp ps k)"
  by (simp add: deprecate_def getProp_delete getProp_update)

lemma handleDeprecations_keeps:
  "k \<notin> fst ` set m \<Longrightarrow> getProp ps k \<noteq> VUndefined
   \<Longrightarrow> getProp (handleDeprecations ps m name) k = getProp ps k"
proof (induction m arbitrary: ps)
  case Nil
  then show ?case by simp
next
  case (Cons p m)
  obtain old new where p: "p = (old, new)" by (cases p)
  from Cons.prems have k: "k \<noteq> old" "k \<notin> fst ` set m" by (auto simp: p)
  have "getProp (deprecate ps old new) k = getProp ps k"
    using k Cons.prems(2) by (auto simp: getProp_deprecate)
  then show ?case
    using Cons.IH [OF k(2), of "deprecate ps old new"] Cons.IH [OF k(2), of ps] Cons.prems(2)
    by (simp add: p)
qed

lemma handleDeprecations_undefined:
  "getProp ps k = VUndefined \<Longrightarrow> k \<notin> snd ` set m
   \<Longrightarrow> getProp (handleDeprecations ps m name) k = VUndefined"
proof (induction m arbitrary: ps)
  case Nil
  then show ?case by simp
next
  case (Cons p m)
  obtain old new where p: "p = (old, new)" by (cases p)
  from Cons.prems have k: "k \<noteq> new" "k \<notin> snd ` set m" by (auto simp: p)
  have "getProp (deprecate ps old new) k = VUndefined"
    using k Cons.prems(1) by (simp add: getProp_deprecate)
  then show ?case
    using Cons.IH [OF _ k(2), of "deprecate ps old new"] Cons.IH [OF _ k(2), of ps] Cons.prems(1)
    by (simp add: p)
qed

lemma handleDeprecations_removes:
  "fst ` set m \<inter> snd ` set m = {} \<Longrightarrow> k \<in> fst ` set m
   \<Longrightarrow> getProp (handleDeprecations ps m name) k = VUndefined"
proof (induction m arbitrary: ps)
  case Nil
  then show ?case by simp
next
  case (Cons p m)
  obtain old new where p: "p = (old, new)" by (cases p)
  from Cons.prems(1) have disj: "fst ` set m \<inter> snd ` set m = {}" by auto
  show ?case
  proof (cases "k \<in> fst ` set m")
    case True
    then show ?thesis using Cons.IH [OF disj] by (simp add: p)
  next
    case False
    with Cons.prems(2) have k: "k = old" by (simp add: p)
    from Cons.prems(1) have notnew: "old \<notin> snd ` set m" by (auto simp: p)
    have "getProp (deprecate ps old new) old = VUndefined"
      by (simp add: getProp_deprecate)
    then show ?thesis
      using handleDeprecations_undefined [OF _ notnew, of "deprecate ps old new" name]
            handleDeprecations_undefined [OF _ notnew, of ps name]
      by (auto simp: p k)
  qed
qed

lemma handleDeprecations_id:
  "\<forall>k \<in> fst ` set m. getProp ps k = VUndefined \<Longrightarrow> handleDeprecations ps m name = ps"
  by (induction m arbitrary: ps) auto

lemma snackbarDeprecations_disjoint:
  "fst ` set snackbarDeprecations \<inter> snd ` set snackbarDeprecations = {}"
  by (simp add: snackbarDeprecations_def)

text \<open>
  C9. Normalizing the props of a Snackbar twice gives the same props as normalizing them
  once: after one pass every deprecated key reads undefined, because a pass writes only to
  replacement keys and none of those is itself deprecated, and a pass over such props
  changes nothing.
\<close>

theorem getPropsWithDeprecations_idempotent:
  "getPropsWithDeprecations handleDeprecations (getPropsWithDeprecations handleDeprecations ps)
     = getPropsWithDeprecations handleDeprecations ps"
proof -
  have "\<forall>k \<in> fst ` set snackbarDeprecations.
          getProp (handleDeprecations ps snackbarDeprecations ''Snackbar'') k = VUndefined"
    using handleDeprecations_removes [OF snackbarDeprecations_disjoint] by blast
  then show ?thesis
    unfolding getPropsWithDeprecations_def by (rule handleDeprecations_id)
qed

theorem getPropsWithDeprecations_idempotent_witness:
  "getPropsWithDeprecations handleDeprecations
     [(''show'', VBool True), (''message'', VStr ''Saved''), (''alignStart'', VBool True),
      (''multiline'', VBool True)]
     = [(''message'', VStr ''Saved''), (''open'', VBool True), (''leading'', VBool True)]
   \<and> getPropsWithDeprecations handleDeprecations
       [(''message'', VStr ''Saved''), (''open'', VBool True), (''leading'', VBool True)]
     = [(''message'', VStr ''Saved''), (''open'', VBool True), (''leading'', VBool True)]"
proof -
  have n: "getPropsWithDeprecations handleDeprecations
     [(''show'', VBool True), (''message'', VStr ''Saved''), (''alignStart'', VBool True),
      (''multiline'', VBool True)]
     = [(''message'', VStr ''Saved''), (''open'', VBool True), (''leading'', VBool True)]"
    by code_simp
  have "getPropsWithDeprecations handleDeprecations
       [(''message'', VStr ''Saved''), (''open'', VBool True), (''leading'', VBool True)]
     = [(''message'', VStr ''Saved''), (''open'', VBool True), (''leading'', VBool True)]"
    using getPropsWithDeprecations_idempotent
      [of "[(''show'', VBool True), (''message'', VStr ''Saved''), (''alignStart'', VBool True),
            (''multiline'', VBool True)]"]
    by (simp only: n)
  with n show ?thesis by (rule conjI)
qed

text \<open>
  C2, as stated, fails for the Icon: the deprecated \<open>iconOptions\<close> are spread after the
  options built from \<open>icon\<close>, so a field they share takes the deprecated value. With
  \<^verbatim>\<open>icon={{icon: 'home', prefix: 'new-'}}\<close> and \<^verbatim>\<open>iconOptions={{prefix: 'old-'}}\<close> the
  prefix in use is \<^verbatim>\<open>'old-'\<close>.
\<close>

theorem iconOptions_deprecated_wins_counterexample:
  "getProp (iconOptions (VObj [(''icon'', VStr ''home''), (''prefix'', VStr ''new-'')])
              (Some [(''prefix'', VStr ''old-'')])) ''prefix'' = VStr ''old-''
   \<and> getProp (iconOptions (VObj [(''icon'', VStr ''home''), (''prefix'', VStr ''new-'')])
              (Some [(''prefix'', VStr ''old-'')])) ''prefix'' \<noteq> VStr ''new-''"
  by (simp add: iconOptions_def getProp_spread buildIconOptions_def getProp_Cons)

text \<open>
  C2, amended. When a Snackbar is given both a deprecated property and its replacement,
  the normalized props hold the value given under the replacement name, and the deprecated
  property is removed. In the Icon the precedence is the other way round: every field of
  the deprecated \<open>iconOptions\<close> overrides the same field of the options record given as
  \<open>icon\<close>.
\<close>

theorem deprecated_and_current_precedence:
  "((old, new) \<in> set snackbarDeprecations \<and> new \<noteq> []
       \<and> getProp ps old \<noteq> VUndefined \<and> getProp ps new \<noteq> VUndefined
      \<longrightarrow> getProp (getPropsWithDeprecations handleDeprecations ps) new = getProp ps new
          \<and> getProp (getPropsWithDeprecations handleDeprecations ps) old = VUndefined)
   \<and> (k \<in> fst ` set d
      \<longrightarrow> getProp (iconOptions icon (Some d)) k = getProp d k)"
proof -
  have snackbar: "getProp (getPropsWithDeprecations handleDeprecations ps) new = getProp ps new
      \<and> getProp (getPropsWithDeprecations handleDeprecations ps) old = VUndefined"
    if pair: "(old, new) \<in> set snackbarDeprecations" and set: "getProp ps new \<noteq> VUndefined"
  proof -
    from pair have old: "old \<in> fst ` set snackbarDeprecations"
      and "new \<in> snd ` set snackbarDeprecations"
      by force+
    with snackbarDeprecations_disjoint have new: "new \<notin> fst ` set snackbarDeprecations"
      by blast
    show ?thesis
      unfolding getPropsWithDeprecations_def
      using handleDeprecations_keeps [OF new set]
            handleDeprecations_removes [OF snackbarDeprecations_disjoint old]
      by simp
  qed
  have icon: "getProp (iconOptions icon (Some d)) k = getProp d k" if "k \<in> fst ` set d"
    using that by (simp add: iconOptions_def getProp_spread)
  from snackbar icon show ?thesis by blast
qed

theorem deprecated_and_current_precedence_witness:
  "getPropsWithDeprecations handleDeprecations [(''show'', VBool True), (''open'', VBool False)]
     = [(''open'', VBool False)]
   \<and> getProp (iconOptions (VObj [(''icon'', VStr ''home''), (''size'', VStr ''small'')])
              (Some [(''size'', VStr ''large'')])) ''size'' = VStr ''large''"
proof -
  let ?ps = "[(''show'', VBool True), (''open'', VBool False)]"
  have n: "getPropsWithDeprecations handleDeprecations ?ps = [(''open'', VBool False)]"
    by code_simp
  have pair: "(''show'', ''open'') \<in> set snackbarDeprecations"
    by (simp add: snackbarDeprecations_def)
  have "getProp (getPropsWithDeprecations handleDeprecations ?ps) ''open'' = VBool False
      \<and> getProp (iconOptions (VObj [(''icon'', VStr ''home''), (''size'', VStr ''small'')])
              (Some [(''size'', VStr ''large'')])) ''size'' = VStr ''large''"
    using deprecated_and_current_precedence [of "''show''" "''open''" ?ps "''size''"
            "[(''size'', VStr ''large'')]" "VObj [(''icon'', VStr ''home''), (''size'', VStr ''small'')]"]
          pair
    by (simp add: getProp_Cons)
  with n show ?thesis by simp
qed

end
